theory Spec2Isabelle
  imports Complex_Main
begin

section \<open>The voice-chat home screen: data model\<close>

text \<open>
  The repository holds two copies of the screen component \<open>HomeScreen\<close>:
  \<^item> \<^verbatim>\<open>src/unnamed/part_000\<close>, the screen with the role descriptions, the
    reset button and the per-turn corrections (called the home screen below);
  \<^item> \<^verbatim>\<open>src/DutchLearningApp/app/(tabs)/index.tsx\<close>, the plainer screen
    (called the tabs screen below; its definitions carry the suffix \<open>_tabs\<close>).

  Each handler is modelled as a function from the component state at the tap to the state
  once the handler has run to completion. What the outside world answers at each
  \<^verbatim>\<open>await\<close> (the microphone, the network, the JSON parser) is an argument of the
  handler. Calls that leave the component (alerts, console output, requests, playback)
  are appended to the trace \<open>effects\<close>.

  A handler reads the state cells through the closure of the render in which it was
  created: the values it reads (\<open>isLoading\<close>, \<open>isRecording\<close>, \<open>context\<close>,
  \<open>liveFeedback\<close>) are those of the state at the tap, also after an \<^verbatim>\<open>await\<close>,
  while a function handed to \<open>setMessages\<close> is applied to the log as it is when
  React makes the update. Other handlers can run while a handler awaits; the model lets
  them run during the awaited upload request (the argument \<open>meanwhile\<close> of
  \<open>uploadAudio_during\<close>), the one await that lasts a network round trip, and nowhere
  else. The cell \<^verbatim>\<open>context\<close> is called \<open>context_name\<close> and the property
  \<^verbatim>\<open>text\<close> of a message \<open>msg_text\<close>.
\<close>

subsection \<open>JavaScript values\<close>

text \<open>
  The response body is typed \<^verbatim>\<open>any\<close>: whatever \<^verbatim>\<open>JSON.parse\<close> returns. An object
  is the list of its own properties; \<open>JUndefined\<close> is what reading an absent property
  gives.
\<close>

datatype jsval =
    JUndefined
  | JNull
  | JBool bool
  | JNum real
  | JStr string
  | JArr "jsval list"
  | JObj "(string \<times> jsval) list"

datatype js_error = TypeError | SyntaxError | NetworkError | ServerError | DeviceError

text \<open>Truthiness, as \<^verbatim>\<open>&&\<close>, \<^verbatim>\<open>!\<close>, \<^verbatim>\<open>if\<close> and \<^verbatim>\<open>?:\<close> use it.\<close>

fun truthy :: "jsval \<Rightarrow> bool" where
  "truthy JUndefined = False"
| "truthy JNull = False"
| "truthy (JBool b) = b"
| "truthy (JNum x) = (x \<noteq> 0)"
| "truthy (JStr s) = (s \<noteq> [])"
| "truthy (JArr xs) = True"
| "truthy (JObj kvs) = True"

text \<open>
  Reading a property \<^verbatim>\<open>data.k\<close>. On \<^verbatim>\<open>null\<close> and \<^verbatim>\<open>undefined\<close> the read throws
  a TypeError. The screens read only the names \<^verbatim>\<open>status\<close>, \<^verbatim>\<open>user_text\<close>,
  \<^verbatim>\<open>reply\<close>, \<^verbatim>\<open>feedback\<close> and \<^verbatim>\<open>audio\<close>, none of which is a built-in property
  of a boolean, a number, a string or an array, so on those the read gives
  \<^verbatim>\<open>undefined\<close>.
\<close>

fun nullish :: "jsval \<Rightarrow> bool" where
  "nullish JUndefined = True"
| "nullish JNull = True"
| "nullish v = False"

fun field :: "jsval \<Rightarrow> string \<Rightarrow> jsval" where
  "field (JObj kvs) k = (case map_of kvs k of None \<Rightarrow> JUndefined | Some v \<Rightarrow> v)"
| "field v k = JUndefined"

definition get_prop :: "jsval \<Rightarrow> string \<Rightarrow> js_error + jsval" where
  "get_prop v k = (if nullish v then Inl TypeError else Inr (field v k))"

subsection \<open>Turns, effects and the component state\<close>

text \<open>
  A message object of the array \<open>messages\<close>. The home screen builds user turns with the
  four properties and AI turns with \<^verbatim>\<open>sender\<close> and \<^verbatim>\<open>text\<close> only; the tabs screen
  builds both kinds with \<^verbatim>\<open>sender\<close> and \<^verbatim>\<open>text\<close> only. A property the object does
  not have is \<open>JUndefined\<close>, which is what reading it gives.
\<close>

record msg =
  sender :: string
  msg_text :: jsval
  feedback :: jsval
  showFeedback :: jsval

type_synonym recording = nat

datatype effect =
    Alert string string
  | ConsoleError string js_error
  | ConsoleLog string
  | ConsoleLogError js_error
  | PlayAudio jsval
  | SetAudioModeAsync
  | RecordingCreateAsync
  | StopAndUnloadAsync recording
  | FetchUri string
  | PostChatAudioFetch string string
  | PostChatAudioUploadAsync string string string
  | PutResetContext

text \<open>
  The state of the tabs screen: its \<^verbatim>\<open>useState\<close> cells, the ref \<^verbatim>\<open>recordingRef\<close>
  and the trace of effects. The home screen has three more cells.
\<close>

record screen_state =
  context_name :: string
  liveFeedback :: bool
  messages :: "msg list"
  isRecording :: bool
  isLoading :: bool
  recordingRef :: "recording option"
  effects :: "effect list"

record home_state = screen_state +
  userAiPairDescription :: "string list option"
  displayRoles :: bool
  refreshing :: bool

text \<open>How a handler ends: it returns, or it throws with the state it had reached.\<close>

datatype 's completion = Returns 's | Throws js_error 's

fun state_of :: "'s completion \<Rightarrow> 's" where
  "state_of (Returns s) = s"
| "state_of (Throws e s) = s"

text \<open>
  How the promise of an \<^verbatim>\<open>async\<close> handler settles: fulfilled with the value the
  function returned (\<^verbatim>\<open>undefined\<close> after a bare \<^verbatim>\<open>return\<close> or the end of the
  body), or rejected with the error that escaped it; in both cases with the state reached.
\<close>

datatype 's settled = Fulfilled jsval 's | Rejected js_error 's

fun settled_state :: "'s settled \<Rightarrow> 's" where
  "settled_state (Fulfilled v s) = s"
| "settled_state (Rejected e s) = s"

fun is_rejected :: "'s settled \<Rightarrow> bool" where
  "is_rejected (Fulfilled v s) = False"
| "is_rejected (Rejected e s) = True"

text \<open>
  What is on display once React has rendered an update: the screen with its new state,
  or nothing. Neither file declares an error boundary, so an error thrown while the
  component renders makes React unmount it.
\<close>

datatype 's screen = Mounted 's | Unmounted js_error

text \<open>
  A handler body as the list of its writes, in the order it makes them; a write is a call
  of a state setter or a call that leaves the component. \<open>apply_writes\<close> is the state
  after all of them, \<open>passes\<close> the states after each of them: every state of the
  component that can be seen while the handler runs is the one it started in or one of
  these.
\<close>

primrec apply_writes :: "('s \<Rightarrow> 's) list \<Rightarrow> 's \<Rightarrow> 's" where
  "apply_writes [] s = s"
| "apply_writes (w # ws) s = apply_writes ws (w s)"

primrec passes :: "('s \<Rightarrow> 's) list \<Rightarrow> 's \<Rightarrow> 's list" where
  "passes [] s = []"
| "passes (w # ws) s = w s # passes ws (w s)"

definition emit :: "effect \<Rightarrow> 'a screen_state_scheme \<Rightarrow> 'a screen_state_scheme" where
  "emit e s = s\<lparr>effects := effects s @ [e]\<rparr>"

definition setMessages ::
  "(msg list \<Rightarrow> msg list) \<Rightarrow> 'a screen_state_scheme \<Rightarrow> 'a screen_state_scheme" where
  "setMessages f s = s\<lparr>messages := f (messages s)\<rparr>"

subsection \<open>The role table and the initial states\<close>

definition user_ai_roles :: "string \<Rightarrow> string list option" where
  "user_ai_roles = map_of
     [(''waiter'', [''international student ordering food/drinks'',
                    ''polite waiter at a Dutch caf'' @ [CHR 0xC3, CHR 0xA9]]),
      (''doctor'', [''international student visiting as a patient'',
                    ''Dutch General Practitioner ('' @ [CHR 0x27] @ ''huisarts'' @ [CHR 0x27] @ '')'']),
      (''grocery'', [''customer checking out at the counter'',
                     ''cashier at a Dutch supermarket''])]"

definition init_tabs :: screen_state where
  "init_tabs = \<lparr>context_name = ''waiter'', liveFeedback = True, messages = [],
     isRecording = False, isLoading = False, recordingRef = None, effects = []\<rparr>"

definition init_home :: home_state where
  "init_home = \<lparr>context_name = ''waiter'', liveFeedback = True, messages = [],
     isRecording = False, isLoading = False, recordingRef = None, effects = [],
     userAiPairDescription = user_ai_roles ''waiter'', displayRoles = True,
     refreshing = False\<rparr>"

section \<open>Handlers\<close>

subsection \<open>playAudio and handleSuccess\<close>

text \<open>
  \<^verbatim>\<open>playAudio\<close> is called without \<^verbatim>\<open>await\<close>, and its whole body sits in a
  \<^verbatim>\<open>try\<close> whose \<^verbatim>\<open>catch\<close> only logs: it hands the data URI
  \<^verbatim>\<open>data:audio/mp3;base64,<argument>\<close> to the platform player and touches no state
  cell. The call is recorded with its argument.
\<close>

definition playAudio :: "jsval \<Rightarrow> 'a screen_state_scheme \<Rightarrow> 'a screen_state_scheme" where
  "playAudio base64Audio s = emit (PlayAudio base64Audio) s"

text \<open>The two objects pushed onto \<^verbatim>\<open>newMessages\<close> by the home screen.\<close>

definition newMessages :: "bool \<Rightarrow> jsval \<Rightarrow> msg list" where
  "newMessages live data =
     [\<lparr>sender = ''user'', msg_text = field data ''user_text'',
       feedback = (if live \<and> truthy (field data ''feedback'')
                   then field data ''feedback'' else JNull),
       showFeedback = JBool False\<rparr>,
      \<lparr>sender = ''ai'', msg_text = field data ''reply'',
       feedback = JUndefined, showFeedback = JUndefined\<rparr>]"

text \<open>
  The \<^verbatim>\<open>handleSuccess\<close> of a render in which \<^verbatim>\<open>liveFeedback\<close> had the value
  \<open>live\<close>: the error it throws on reading \<^verbatim>\<open>data.status\<close>, before any write, or
  the writes it makes. On a success that is one call of \<open>setMessages\<close>, with the
  function that appends \<^verbatim>\<open>newMessages\<close>, then the call of \<open>playAudio\<close> when
  \<^verbatim>\<open>data.audio\<close> is truthy.
\<close>

definition handleSuccess_writes ::
  "bool \<Rightarrow> jsval \<Rightarrow> js_error + (home_state \<Rightarrow> home_state) list" where
  "handleSuccess_writes live data =
     (case get_prop data ''status'' of
        Inl e \<Rightarrow> Inl e
      | Inr st \<Rightarrow>
          if st = JStr ''success'' then
            Inr (setMessages (\<lambda>prev. prev @ newMessages live data) #
                 (if truthy (field data ''audio'')
                  then [playAudio (field data ''audio'')] else []))
          else Inr [emit (Alert ''AI Error'' ''Could not understand audio.'')])"

text \<open>
  That handler run on the state \<open>s\<close> the component has when the response arrives, and
  the states it passes through.
\<close>

definition handleSuccess_closure ::
  "bool \<Rightarrow> jsval \<Rightarrow> home_state \<Rightarrow> home_state completion" where
  "handleSuccess_closure live data s =
     (case handleSuccess_writes live data of
        Inl e \<Rightarrow> Throws e s
      | Inr ws \<Rightarrow> Returns (apply_writes ws s))"

definition handleSuccess_states :: "bool \<Rightarrow> jsval \<Rightarrow> home_state \<Rightarrow> home_state list" where
  "handleSuccess_states live data s =
     (case handleSuccess_writes live data of
        Inl e \<Rightarrow> []
      | Inr ws \<Rightarrow> passes ws s)"

text \<open>
  \<^verbatim>\<open>handleSuccess\<close> when nothing has happened since the render that created it: the
  value it captured is the one of the state it runs on.
\<close>

definition handleSuccess :: "jsval \<Rightarrow> home_state \<Rightarrow> home_state completion" where
  "handleSuccess data s = handleSuccess_closure (liveFeedback s) data s"

text \<open>The two objects appended by the tabs screen.\<close>

definition newMessages_tabs :: "jsval \<Rightarrow> msg list" where
  "newMessages_tabs data =
     [\<lparr>sender = ''user'', msg_text = field data ''user_text'',
       feedback = JUndefined, showFeedback = JUndefined\<rparr>,
      \<lparr>sender = ''ai'', msg_text = field data ''reply'',
       feedback = JUndefined, showFeedback = JUndefined\<rparr>]"

text \<open>
  The \<^verbatim>\<open>handleSuccess\<close> of the tabs screen reads no state cell, so it captures
  nothing: its writes depend on the response alone.
\<close>

definition handleSuccess_tabs_writes ::
  "jsval \<Rightarrow> js_error + (screen_state \<Rightarrow> screen_state) list" where
  "handleSuccess_tabs_writes data =
     (case get_prop data ''status'' of
        Inl e \<Rightarrow> Inl e
      | Inr st \<Rightarrow>
          if st = JStr ''success'' then
            Inr (setMessages (\<lambda>prev. prev @ newMessages_tabs data) #
                 (if truthy (field data ''audio'')
                  then [playAudio (field data ''audio'')] else []))
          else Inr [emit (Alert ''AI Error'' ''Could not understand audio.'')])"

definition handleSuccess_tabs :: "jsval \<Rightarrow> screen_state \<Rightarrow> screen_state completion" where
  "handleSuccess_tabs data s =
     (case handleSuccess_tabs_writes data of
        Inl e \<Rightarrow> Throws e s
      | Inr ws \<Rightarrow> Returns (apply_writes ws s))"

definition handleSuccess_tabs_states :: "jsval \<Rightarrow> screen_state \<Rightarrow> screen_state list" where
  "handleSuccess_tabs_states data s =
     (case handleSuccess_tabs_writes data of
        Inl e \<Rightarrow> []
      | Inr ws \<Rightarrow> passes ws s)"

subsection \<open>Recording\<close>

text \<open>
  What the device answers to \<^verbatim>\<open>startRecording\<close>: either of the two awaited calls
  may reject, or a recording handle comes back.
\<close>

datatype start_outcome = SetAudioModeRejects | CreateRejects | Created recording

definition startRecording_catch :: "'a screen_state_scheme \<Rightarrow> 'a screen_state_scheme" where
  "startRecording_catch s =
     emit (Alert ''Error'' ''Could not start microphone.'')
       (emit (ConsoleError ''Start Error:'' DeviceError) s)"

definition startRecording ::
  "start_outcome \<Rightarrow> 'a screen_state_scheme \<Rightarrow> 'a screen_state_scheme" where
  "startRecording out s =
     (let s1 = emit SetAudioModeAsync s in
      case out of
        SetAudioModeRejects \<Rightarrow> startRecording_catch s1
      | CreateRejects \<Rightarrow> startRecording_catch (emit RecordingCreateAsync s1)
      | Created rec \<Rightarrow>
          (emit RecordingCreateAsync s1)\<lparr>recordingRef := Some rec, isRecording := True\<rparr>)"

subsection \<open>Upload\<close>

text \<open>
  What the outside answers to an upload. On the web: fetching the recorded blob may
  fail, the POST may fail, or a response arrives with its status code and its body as
  \<^verbatim>\<open>upload.json()\<close> reads it (\<open>None\<close> when the body is not JSON). On a device:
  \<^verbatim>\<open>FileSystem.uploadAsync\<close> rejects, or gives a status code and a body, given as
  \<^verbatim>\<open>JSON.parse\<close> reads it (\<open>None\<close> when it throws).
\<close>

datatype web_outcome = UriFetchRejects | BlobRejects | PostRejects | Posted nat "jsval option"

datatype native_outcome = UploadAsyncRejects | Uploaded nat "jsval option"

datatype upload_env = OnWeb web_outcome | OnNative native_outcome

definition bool_toString :: "bool \<Rightarrow> string" where
  "bool_toString b = (if b then ''true'' else ''false'')"

text \<open>
  The body of the \<^verbatim>\<open>try\<close> block of \<^verbatim>\<open>uploadAudio\<close>, home screen. The request
  is built from the \<^verbatim>\<open>context\<close> and \<^verbatim>\<open>liveFeedback\<close> of the state \<open>s\<close> at the
  tap, and the \<^verbatim>\<open>handleSuccess\<close> that is called after the await is the one of that
  same render. \<open>meanwhile\<close> is what other handlers do to the component while the
  request is awaited.
\<close>

definition uploadAudio_try_during ::
  "(home_state \<Rightarrow> home_state) \<Rightarrow> upload_env \<Rightarrow> string \<Rightarrow> home_state
     \<Rightarrow> home_state completion" where
  "uploadAudio_try_during meanwhile env uri s =
     (case env of
        OnWeb w \<Rightarrow>
          (let s1 = emit (FetchUri uri) s;
               s2 = emit (PostChatAudioFetch (context_name s) (bool_toString (liveFeedback s))) s1;
               s3 = meanwhile s2
           in case w of
                UriFetchRejects \<Rightarrow> Throws NetworkError s1
              | BlobRejects \<Rightarrow> Throws TypeError s1
              | PostRejects \<Rightarrow> Throws NetworkError s3
              | Posted status body \<Rightarrow>
                  (case body of
                     None \<Rightarrow> Throws SyntaxError s3
                   | Some data \<Rightarrow> handleSuccess_closure (liveFeedback s) data s3))
      | OnNative n \<Rightarrow>
          (let s1 = emit (PostChatAudioUploadAsync uri (context_name s)
                            (bool_toString (liveFeedback s))) s;
               s2 = meanwhile s1
           in case n of
                UploadAsyncRejects \<Rightarrow> Throws NetworkError s2
              | Uploaded status body \<Rightarrow>
                  if status \<noteq> 200 then Throws ServerError s2
                  else (case body of
                          None \<Rightarrow> Throws SyntaxError s2
                        | Some data \<Rightarrow> handleSuccess_closure (liveFeedback s) data s2)))"

definition uploadAudio_catch :: "js_error \<Rightarrow> 'a screen_state_scheme \<Rightarrow> 'a screen_state_scheme" where
  "uploadAudio_catch e s =
     emit (Alert ''Connection Error'' ''Could not reach the AI server.'')
       (emit (ConsoleError ''Upload Failed'' e) s)"

definition uploadAudio_during ::
  "(home_state \<Rightarrow> home_state) \<Rightarrow> upload_env \<Rightarrow> string \<Rightarrow> home_state \<Rightarrow> home_state" where
  "uploadAudio_during meanwhile env uri s =
     (let s1 = (case uploadAudio_try_during meanwhile env uri s of
                  Returns s' \<Rightarrow> s'
                | Throws e s' \<Rightarrow> uploadAudio_catch e s')
      in s1\<lparr>isLoading := False\<rparr>)"

text \<open>\<^verbatim>\<open>uploadAudio\<close> when no other handler runs while the request is awaited.\<close>

definition uploadAudio :: "upload_env \<Rightarrow> string \<Rightarrow> home_state \<Rightarrow> home_state" where
  "uploadAudio env uri s = uploadAudio_during (\<lambda>s'. s') env uri s"

text \<open>
  The \<^verbatim>\<open>uploadAudio\<close> of the tabs screen, which calls its own \<^verbatim>\<open>handleSuccess\<close>,
  when no other handler runs while the request is awaited.
\<close>

definition uploadAudio_try_tabs ::
  "upload_env \<Rightarrow> string \<Rightarrow> screen_state \<Rightarrow> screen_state completion" where
  "uploadAudio_try_tabs env uri s =
     (case env of
        OnWeb w \<Rightarrow>
          (let s1 = emit (FetchUri uri) s;
               s2 = emit (PostChatAudioFetch (context_name s) (bool_toString (liveFeedback s))) s1
           in case w of
                UriFetchRejects \<Rightarrow> Throws NetworkError s1
              | BlobRejects \<Rightarrow> Throws TypeError s1
              | PostRejects \<Rightarrow> Throws NetworkError s2
              | Posted status body \<Rightarrow>
                  (case body of
                     None \<Rightarrow> Throws SyntaxError s2
                   | Some data \<Rightarrow> handleSuccess_tabs data s2))
      | OnNative n \<Rightarrow>
          (let s1 = emit (PostChatAudioUploadAsync uri (context_name s)
                            (bool_toString (liveFeedback s))) s
           in case n of
                UploadAsyncRejects \<Rightarrow> Throws NetworkError s1
              | Uploaded status body \<Rightarrow>
                  if status \<noteq> 200 then Throws ServerError s1
                  else (case body of
                          None \<Rightarrow> Throws SyntaxError s1
                        | Some data \<Rightarrow> handleSuccess_tabs data s1)))"

definition uploadAudio_tabs :: "upload_env \<Rightarrow> string \<Rightarrow> screen_state \<Rightarrow> screen_state" where
  "uploadAudio_tabs env uri s =
     (let s1 = (case uploadAudio_try_tabs env uri s of
                  Returns s' \<Rightarrow> s'
                | Throws e s' \<Rightarrow> uploadAudio_catch e s')
      in s1\<lparr>isLoading := False\<rparr>)"

subsection \<open>Stopping and the record button\<close>

text \<open>
  What the device answers to \<^verbatim>\<open>stopAndUnloadAsync\<close>: it rejects, or it ends and
  \<^verbatim>\<open>getURI()\<close> gives a string or \<^verbatim>\<open>null\<close>. The test \<^verbatim>\<open>if (uri)\<close> also fails on
  the empty string.
\<close>

datatype stop_outcome = StopRejects | Stopped "string option"

definition stopRecording_catch :: "'a screen_state_scheme \<Rightarrow> 'a screen_state_scheme" where
  "stopRecording_catch s = (emit (ConsoleError ''Stop Error:'' DeviceError) s)\<lparr>isLoading := False\<rparr>"

text \<open>
  \<^verbatim>\<open>stopRecording\<close> has no \<^verbatim>\<open>return\<close> with a value and no \<^verbatim>\<open>throw\<close>; what its
  awaited calls throw is caught inside it, and \<^verbatim>\<open>uploadAudio\<close> catches its own
  errors. Its promise is fulfilled with \<^verbatim>\<open>undefined\<close> on every path: after the bare
  \<^verbatim>\<open>return\<close> taken when there is no recording, after the \<^verbatim>\<open>try\<close> and after the
  \<^verbatim>\<open>catch\<close>. \<^verbatim>\<open>toggleRecording\<close> awaits it and drops the value.
\<close>

definition stopRecording ::
  "stop_outcome \<Rightarrow> upload_env \<Rightarrow> home_state \<Rightarrow> home_state settled" where
  "stopRecording out env s =
     (let s1 = s\<lparr>isRecording := False, isLoading := True\<rparr> in
      case recordingRef s1 of
        None \<Rightarrow> Fulfilled JUndefined (s1\<lparr>isLoading := False\<rparr>)
      | Some rec \<Rightarrow>
          (let s2 = emit (StopAndUnloadAsync rec) s1 in
           case out of
             StopRejects \<Rightarrow> Fulfilled JUndefined (stopRecording_catch s2)
           | Stopped uri \<Rightarrow>
               (let s3 = s2\<lparr>recordingRef := None\<rparr> in
                case uri of
                  None \<Rightarrow> Fulfilled JUndefined (s3\<lparr>isLoading := False\<rparr>)
                | Some u \<Rightarrow> if u = [] then Fulfilled JUndefined (s3\<lparr>isLoading := False\<rparr>)
                            else Fulfilled JUndefined (uploadAudio env u s3))))"

definition toggleRecording ::
  "start_outcome \<Rightarrow> stop_outcome \<Rightarrow> upload_env \<Rightarrow> home_state \<Rightarrow> home_state" where
  "toggleRecording start stop env s =
     (if isLoading s then s
      else if isRecording s then settled_state (stopRecording stop env s)
      else startRecording start s)"

definition stopRecording_tabs ::
  "stop_outcome \<Rightarrow> upload_env \<Rightarrow> screen_state \<Rightarrow> screen_state settled" where
  "stopRecording_tabs out env s =
     (let s1 = s\<lparr>isRecording := False, isLoading := True\<rparr> in
      case recordingRef s1 of
        None \<Rightarrow> Fulfilled JUndefined (s1\<lparr>isLoading := False\<rparr>)
      | Some rec \<Rightarrow>
          (let s2 = emit (StopAndUnloadAsync rec) s1 in
           case out of
             StopRejects \<Rightarrow> Fulfilled JUndefined (stopRecording_catch s2)
           | Stopped uri \<Rightarrow>
               (let s3 = s2\<lparr>recordingRef := None\<rparr> in
                case uri of
                  None \<Rightarrow> Fulfilled JUndefined (s3\<lparr>isLoading := False\<rparr>)
                | Some u \<Rightarrow> if u = [] then Fulfilled JUndefined (s3\<lparr>isLoading := False\<rparr>)
                            else Fulfilled JUndefined (uploadAudio_tabs env u s3))))"

definition toggleRecording_tabs ::
  "start_outcome \<Rightarrow> stop_outcome \<Rightarrow> upload_env \<Rightarrow> screen_state \<Rightarrow> screen_state" where
  "toggleRecording_tabs start stop env s =
     (if isLoading s then s
      else if isRecording s then settled_state (stopRecording_tabs stop env s)
      else startRecording start s)"

subsection \<open>Reset, context pills, corrections (home screen) and the switch\<close>

text \<open>What the network answers to the PUT of \<^verbatim>\<open>resetHistory\<close>.\<close>

datatype reset_outcome = ResetRejects | ResetResponded nat

definition resetHistory :: "reset_outcome \<Rightarrow> home_state \<Rightarrow> home_state" where
  "resetHistory out s =
     (let s1 = emit PutResetContext (s\<lparr>displayRoles := False\<rparr>) in
      case out of
        ResetRejects \<Rightarrow> emit (ConsoleLogError NetworkError) s1
      | ResetResponded status \<Rightarrow>
          (let s2 = (if status \<noteq> 204 then emit (ConsoleLog ''Could not reset history.'') s1
                     else s1)
           in s2\<lparr>messages := [], displayRoles := True\<rparr>))"

definition onRefresh :: "reset_outcome \<Rightarrow> home_state \<Rightarrow> home_state" where
  "onRefresh out s = (resetHistory out (s\<lparr>refreshing := True\<rparr>))\<lparr>refreshing := False\<rparr>"

text \<open>The \<^verbatim>\<open>onPress\<close> of the context pill \<open>c\<close>, on each screen.\<close>

definition pill_onPress :: "string \<Rightarrow> home_state \<Rightarrow> home_state" where
  "pill_onPress c s =
     s\<lparr>userAiPairDescription := user_ai_roles c, messages := [], context_name := c,
       displayRoles := True\<rparr>"

definition pill_onPress_tabs :: "string \<Rightarrow> screen_state \<Rightarrow> screen_state" where
  "pill_onPress_tabs c s = s\<lparr>context_name := c\<rparr>"

text \<open>
  The function that \<^verbatim>\<open>toggleFeedback\<close> hands to \<^verbatim>\<open>setMessages\<close>. Outside the array
  \<^verbatim>\<open>updated[index]\<close> is \<^verbatim>\<open>undefined\<close>, and reading \<^verbatim>\<open>.sender\<close> of it throws.
\<close>

definition toggleFeedback_updater :: "int \<Rightarrow> msg list \<Rightarrow> js_error + msg list" where
  "toggleFeedback_updater index prev =
     (let updated = prev in
      if index < 0 \<or> int (length updated) \<le> index then Inl TypeError
      else if sender (updated ! nat index) = ''user''
           then Inr (updated[nat index :=
                       (updated ! nat index)\<lparr>showFeedback :=
                          JBool (\<not> truthy (showFeedback (updated ! nat index)))\<rparr>])
           else Inr updated)"

text \<open>
  React does not run a function handed to \<^verbatim>\<open>setMessages\<close> inside that call: it runs
  it on the log when it next renders the component. When the function throws, the
  render throws and the screen is unmounted.
\<close>

definition render_setMessages ::
  "(msg list \<Rightarrow> js_error + msg list) \<Rightarrow> 'a screen_state_scheme
     \<Rightarrow> 'a screen_state_scheme screen" where
  "render_setMessages f s =
     (case f (messages s) of
        Inl e \<Rightarrow> Unmounted e
      | Inr ms \<Rightarrow> Mounted (s\<lparr>messages := ms\<rparr>))"

text \<open>
  \<^verbatim>\<open>toggleFeedback\<close> is that one call of \<^verbatim>\<open>setMessages\<close>: it returns to its caller
  for every index, and what it returns here is the screen once React has rendered the
  update.
\<close>

definition toggleFeedback :: "int \<Rightarrow> home_state \<Rightarrow> home_state screen completion" where
  "toggleFeedback index s = Returns (render_setMessages (toggleFeedback_updater index) s)"

text \<open>The \<^verbatim>\<open>onValueChange\<close> of the Live Corrections switch.\<close>

definition setLiveFeedback :: "bool \<Rightarrow> 'a screen_state_scheme \<Rightarrow> 'a screen_state_scheme" where
  "setLiveFeedback v s = s\<lparr>liveFeedback := v\<rparr>"

subsection \<open>Sequences of events\<close>

text \<open>
  A run of handled responses, one after the other, and a run of changes of the switch.
\<close>

primrec handle_all :: "jsval list \<Rightarrow> home_state \<Rightarrow> home_state" where
  "handle_all [] s = s"
| "handle_all (d # ds) s = handle_all ds (state_of (handleSuccess d s))"

primrec handle_all_tabs :: "jsval list \<Rightarrow> screen_state \<Rightarrow> screen_state" where
  "handle_all_tabs [] s = s"
| "handle_all_tabs (d # ds) s = handle_all_tabs ds (state_of (handleSuccess_tabs d s))"

primrec switch_all :: "bool list \<Rightarrow> 'a screen_state_scheme \<Rightarrow> 'a screen_state_scheme" where
  "switch_all [] s = s"
| "switch_all (v # vs) s = switch_all vs (setLiveFeedback v s)"

definition is_success :: "jsval \<Rightarrow> bool" where
  "is_success data = (\<not> nullish data \<and> field data ''status'' = JStr ''success'')"

subsection \<open>Sample inputs\<close>

text \<open>
  A success response with all five properties, the state the home screen is in while an
  upload is in flight, and the states of both screens after one handled exchange.
\<close>

definition example_response :: jsval where
  "example_response =
     JObj [(''status'', JStr ''success''),
           (''user_text'', JStr ''Ik wil een koffie''),
           (''reply'', JStr ''Hier is uw koffie.''),
           (''feedback'', JStr ''Gebruik graag voor beleefdheid.''),
           (''audio'', JStr ''QUJD'')]"

definition bare_response :: jsval where
  "bare_response = JObj [(''status'', JStr ''success'')]"

definition uploading_home :: home_state where
  "uploading_home = init_home\<lparr>isLoading := True\<rparr>"

definition uploading_tabs :: screen_state where
  "uploading_tabs = init_tabs\<lparr>isLoading := True\<rparr>"

definition one_exchange_home :: home_state where
  "one_exchange_home = handle_all [example_response] init_home"

definition one_exchange_tabs :: screen_state where
  "one_exchange_tabs = handle_all_tabs [example_response] init_tabs"

section \<open>Properties\<close>

subsection \<open>Basic facts about the state updates\<close>

lemma messages_emit [simp]: "messages (emit e s) = messages s"
  by (simp add: emit_def)

lemma effects_emit [simp]: "effects (emit e s) = effects s @ [e]"
  by (simp add: emit_def)

lemma isLoading_emit [simp]: "isLoading (emit e s) = isLoading s"
  by (simp add: emit_def)

lemma liveFeedback_emit [simp]: "liveFeedback (emit e s) = liveFeedback s"
  by (simp add: emit_def)

lemma messages_playAudio [simp]: "messages (playAudio a s) = messages s"
  by (simp add: playAudio_def)

lemma effects_playAudio [simp]: "effects (playAudio a s) = effects s @ [PlayAudio a]"
  by (simp add: playAudio_def)

lemma liveFeedback_playAudio [simp]: "liveFeedback (playAudio a s) = liveFeedback s"
  by (simp add: playAudio_def)

lemma messages_setMessages [simp]: "messages (setMessages f s) = f (messages s)"
  by (simp add: setMessages_def)

lemma effects_setMessages [simp]: "effects (setMessages f s) = effects s"
  by (simp add: setMessages_def)

lemma liveFeedback_setMessages [simp]: "liveFeedback (setMessages f s) = liveFeedback s"
  by (simp add: setMessages_def)

lemma get_prop_success:
  "is_success data \<Longrightarrow> get_prop data ''status'' = Inr (JStr ''success'')"
  by (simp add: is_success_def get_prop_def)

lemma is_success_example [simp]: "is_success example_response"
  by (simp add: is_success_def example_response_def)

lemma is_success_bare [simp]: "is_success bare_response"
  by (simp add: is_success_def bare_response_def)

text \<open>On a success response each screen makes one \<open>setMessages\<close> call and returns.\<close>

lemma handleSuccess_writes_success:
  assumes "is_success data"
  shows "handleSuccess_writes live data =
           Inr (setMessages (\<lambda>prev. prev @ newMessages live data) #
                (if truthy (field data ''audio'') then [playAudio (field data ''audio'')]
                 else []))"
  using assms by (simp add: handleSuccess_writes_def get_prop_success)

lemma handleSuccess_tabs_writes_success:
  assumes "is_success data"
  shows "handleSuccess_tabs_writes data =
           Inr (setMessages (\<lambda>prev. prev @ newMessages_tabs data) #
                (if truthy (field data ''audio'') then [playAudio (field data ''audio'')]
                 else []))"
  using assms by (simp add: handleSuccess_tabs_writes_def get_prop_success)

lemma handleSuccess_closure_success:
  assumes "is_success data"
  shows "handleSuccess_closure live data s =
           Returns (if truthy (field data ''audio'')
                    then playAudio (field data ''audio'')
                           (setMessages (\<lambda>prev. prev @ newMessages live data) s)
                    else setMessages (\<lambda>prev. prev @ newMessages live data) s)"
  using assms by (simp add: handleSuccess_closure_def handleSuccess_writes_success)

lemma handleSuccess_success:
  assumes "is_success data"
  shows "handleSuccess data s =
           Returns (if truthy (field data ''audio'')
                    then playAudio (field data ''audio'')
                           (setMessages (\<lambda>prev. prev @ newMessages (liveFeedback s) data) s)
                    else setMessages (\<lambda>prev. prev @ newMessages (liveFeedback s) data) s)"
  using assms by (simp add: handleSuccess_def handleSuccess_closure_success)

lemma handleSuccess_tabs_success:
  assumes "is_success data"
  shows "handleSuccess_tabs data s =
           Returns (if truthy (field data ''audio'')
                    then playAudio (field data ''audio'')
                           (setMessages (\<lambda>prev. prev @ newMessages_tabs data) s)
                    else setMessages (\<lambda>prev. prev @ newMessages_tabs data) s)"
  using assms by (simp add: handleSuccess_tabs_def handleSuccess_tabs_writes_success)

lemma handleSuccess_states_success:
  assumes "is_success data"
  shows "handleSuccess_states live data s =
           setMessages (\<lambda>prev. prev @ newMessages live data) s #
           (if truthy (field data ''audio'')
            then [playAudio (field data ''audio'')
                    (setMessages (\<lambda>prev. prev @ newMessages live data) s)]
            else [])"
  using assms by (simp add: handleSuccess_states_def handleSuccess_writes_success)

lemma handleSuccess_tabs_states_success:
  assumes "is_success data"
  shows "handleSuccess_tabs_states data s =
           setMessages (\<lambda>prev. prev @ newMessages_tabs data) s #
           (if truthy (field data ''audio'')
            then [playAudio (field data ''audio'')
                    (setMessages (\<lambda>prev. prev @ newMessages_tabs data) s)]
            else [])"
  using assms by (simp add: handleSuccess_tabs_states_def handleSuccess_tabs_writes_success)

lemma messages_handleSuccess_closure:
  "messages (state_of (handleSuccess_closure live data s)) =
     messages s @ (if is_success data then newMessages live data else [])"
  by (cases "nullish data")
     (simp_all add: handleSuccess_closure_def handleSuccess_writes_def get_prop_def
        is_success_def)

lemma liveFeedback_handleSuccess_closure:
  "liveFeedback (state_of (handleSuccess_closure live data s)) = liveFeedback s"
  by (cases "nullish data")
     (simp_all add: handleSuccess_closure_def handleSuccess_writes_def get_prop_def)

lemma messages_handleSuccess:
  "messages (state_of (handleSuccess data s)) =
     messages s @ (if is_success data then newMessages (liveFeedback s) data else [])"
  by (simp add: handleSuccess_def messages_handleSuccess_closure)

lemma messages_handleSuccess_tabs:
  "messages (state_of (handleSuccess_tabs data s)) =
     messages s @ (if is_success data then newMessages_tabs data else [])"
  by (cases "nullish data")
     (simp_all add: handleSuccess_tabs_def handleSuccess_tabs_writes_def get_prop_def
        is_success_def)

lemma length_newMessages [simp]: "length (newMessages live data) = 2"
  by (simp add: newMessages_def)

lemma length_newMessages_tabs [simp]: "length (newMessages_tabs data) = 2"
  by (simp add: newMessages_tabs_def)

lemma length_handle_all:
  "list_all is_success ds \<Longrightarrow>
     length (messages (handle_all ds s)) = length (messages s) + 2 * length ds"
  by (induction ds arbitrary: s) (simp_all add: messages_handleSuccess)


lemma messages_one_exchange_tabs:
  "messages one_exchange_tabs = newMessages_tabs example_response"
  by (simp add: one_exchange_tabs_def messages_handleSuccess_tabs init_tabs_def)

lemma messages_one_exchange_home:
  "messages one_exchange_home = newMessages True example_response"
  by (simp add: one_exchange_home_def messages_handleSuccess init_home_def)

text \<open>The state a handler ends in is the last of the states it passes through.\<close>

lemma apply_writes_last: "apply_writes ws s = last (s # passes ws s)"
  by (induction ws arbitrary: s) simp_all

subsection \<open>Appending an exchange\<close>

text \<open>
  C6. On a success response \<open>handleSuccess\<close> returns after one \<open>setMessages\<close> call
  whose function appends the user turn and the AI turn together, in that order, to
  whatever the log holds: the log grows by exactly two, on both screens, and so it does
  through \<open>uploadAudio\<close> when the upload succeeds. Whatever value of \<open>liveFeedback\<close>
  the handler captured and whatever state it runs on, the handler passes through at
  least one state, each state it passes through holds the old log followed by both new
  turns, and the last of them is the state it ends in: after the old log an observer
  sees the user turn and the AI turn together, never the user turn alone.
\<close>

theorem handleSuccess_appends_pair:
  assumes "is_success data"
  shows "state_of (handleSuccess data s) =
           (if truthy (field data ''audio'') then playAudio (field data ''audio'') else id)
             (setMessages (\<lambda>prev. prev @ newMessages (liveFeedback s) data) s)
       \<and> (\<exists>s'. handleSuccess data s = Returns s'
             \<and> messages s' = messages s @ newMessages (liveFeedback s) data)
       \<and> map sender (newMessages (liveFeedback s) data) = [''user'', ''ai'']
       \<and> length (messages (state_of (handleSuccess data s))) = length (messages s) + 2
       \<and> messages (uploadAudio (OnNative (Uploaded 200 (Some data))) uri s)
           = messages s @ newMessages (liveFeedback s) data
       \<and> messages (uploadAudio (OnWeb (Posted 200 (Some data))) uri s)
           = messages s @ newMessages (liveFeedback s) data
       \<and> (\<exists>t'. handleSuccess_tabs data t = Returns t'
             \<and> messages t' = messages t @ newMessages_tabs data)
       \<and> map sender (newMessages_tabs data) = [''user'', ''ai'']
       \<and> length (messages (state_of (handleSuccess_tabs data t))) = length (messages t) + 2
       \<and> messages (uploadAudio_tabs (OnNative (Uploaded 200 (Some data))) uri t)
           = messages t @ newMessages_tabs data
       \<and> messages (uploadAudio_tabs (OnWeb (Posted 200 (Some data))) uri t)
           = messages t @ newMessages_tabs data
       \<and> handleSuccess_states live data s \<noteq> []
       \<and> list_all (\<lambda>s'. messages s' = messages s @ newMessages live data)
            (handleSuccess_states live data s)
       \<and> state_of (handleSuccess_closure live data s)
           = last (s # handleSuccess_states live data s)
       \<and> handleSuccess_tabs_states data t \<noteq> []
       \<and> list_all (\<lambda>t'. messages t' = messages t @ newMessages_tabs data)
            (handleSuccess_tabs_states data t)
       \<and> state_of (handleSuccess_tabs data t) = last (t # handleSuccess_tabs_states data t)"
proof -
  have home: "handleSuccess_closure l data s' =
      Returns ((if truthy (field data ''audio'') then playAudio (field data ''audio'') else id)
                 (setMessages (\<lambda>prev. prev @ newMessages l data) s'))" for s' l
    using assms by (simp add: handleSuccess_closure_success)
  have tabs: "handleSuccess_tabs data t' =
      Returns ((if truthy (field data ''audio'') then playAudio (field data ''audio'') else id)
                 (setMessages (\<lambda>prev. prev @ newMessages_tabs data) t'))" for t'
    using assms by (simp add: handleSuccess_tabs_success)
  have 1: "messages (uploadAudio (OnNative (Uploaded 200 (Some data))) uri s)
             = messages s @ newMessages (liveFeedback s) data"
    by (simp add: uploadAudio_def uploadAudio_during_def uploadAudio_try_during_def home Let_def)
  have 2: "messages (uploadAudio (OnWeb (Posted 200 (Some data))) uri s)
             = messages s @ newMessages (liveFeedback s) data"
    by (simp add: uploadAudio_def uploadAudio_during_def uploadAudio_try_during_def home Let_def)
  have 3: "messages (uploadAudio_tabs (OnNative (Uploaded 200 (Some data))) uri t)
             = messages t @ newMessages_tabs data"
    by (simp add: uploadAudio_tabs_def uploadAudio_try_tabs_def tabs Let_def)
  have 4: "messages (uploadAudio_tabs (OnWeb (Posted 200 (Some data))) uri t)
             = messages t @ newMessages_tabs data"
    by (simp add: uploadAudio_tabs_def uploadAudio_try_tabs_def tabs Let_def)
  have 5: "handleSuccess_states live data s \<noteq> []
       \<and> list_all (\<lambda>s'. messages s' = messages s @ newMessages live data)
            (handleSuccess_states live data s)
       \<and> state_of (handleSuccess_closure live data s)
           = last (s # handleSuccess_states live data s)"
    using assms by (simp add: handleSuccess_states_success home)
  have 6: "handleSuccess_tabs_states data t \<noteq> []
       \<and> list_all (\<lambda>t'. messages t' = messages t @ newMessages_tabs data)
            (handleSuccess_tabs_states data t)
       \<and> state_of (handleSuccess_tabs data t) = last (t # handleSuccess_tabs_states data t)"
    using assms by (simp add: handleSuccess_tabs_states_success tabs)
  have 7: "state_of (handleSuccess data s) =
           (if truthy (field data ''audio'') then playAudio (field data ''audio'') else id)
             (setMessages (\<lambda>prev. prev @ newMessages (liveFeedback s) data) s)
       \<and> (\<exists>s'. handleSuccess data s = Returns s'
             \<and> messages s' = messages s @ newMessages (liveFeedback s) data)
       \<and> map sender (newMessages (liveFeedback s) data) = [''user'', ''ai'']
       \<and> length (messages (state_of (handleSuccess data s))) = length (messages s) + 2"
    by (simp add: handleSuccess_def home newMessages_def)
  have 8: "(\<exists>t'. handleSuccess_tabs data t = Returns t'
             \<and> messages t' = messages t @ newMessages_tabs data)
       \<and> map sender (newMessages_tabs data) = [''user'', ''ai'']
       \<and> length (messages (state_of (handleSuccess_tabs data t))) = length (messages t) + 2"
    by (simp add: tabs newMessages_tabs_def)
  show ?thesis
    using 1 2 3 4 5 6 7 8 by blast
qed

theorem handleSuccess_appends_pair_witness:
  "is_success example_response
   \<and> map sender (messages (state_of (handleSuccess example_response init_home))) = [''user'', ''ai'']
   \<and> map sender (messages (uploadAudio (OnNative (Uploaded 200 (Some example_response)))
                             ''file:rec.m4a'' uploading_home)) = [''user'', ''ai'']
   \<and> map sender (messages (state_of (handleSuccess_tabs example_response one_exchange_tabs)))
       = [''user'', ''ai'', ''user'', ''ai'']
   \<and> map (\<lambda>s'. map sender (messages s')) (handleSuccess_states False example_response init_home)
       = [[''user'', ''ai''], [''user'', ''ai'']]
   \<and> map (\<lambda>t'. map sender (messages t')) (handleSuccess_tabs_states bare_response init_tabs)
       = [[''user'', ''ai'']]"
proof -
  have h: "is_success example_response" by simp
  have m1: "messages init_home = []" by (simp add: init_home_def)
  have m2: "messages uploading_home = []" by (simp add: uploading_home_def init_home_def)
  have m3: "map sender (messages one_exchange_tabs) = [''user'', ''ai'']"
    by (simp add: one_exchange_tabs_def messages_handleSuccess_tabs init_tabs_def
          newMessages_tabs_def)
  have a: "truthy (field example_response ''audio'')"
          "\<not> truthy (field bare_response ''audio'')"
    by (simp_all add: example_response_def bare_response_def)
  have p: "map (\<lambda>s'. map sender (messages s'))
             (handleSuccess_states False example_response init_home)
           = [[''user'', ''ai''], [''user'', ''ai'']]"
    by (simp add: handleSuccess_states_success a m1 newMessages_def)
  have q: "map (\<lambda>t'. map sender (messages t')) (handleSuccess_tabs_states bare_response init_tabs)
           = [[''user'', ''ai'']]"
    by (simp add: handleSuccess_tabs_states_success a init_tabs_def newMessages_tabs_def)
  note at_init = handleSuccess_appends_pair [OF h, where s = init_home
      and uri = "''file:rec.m4a''" and t = one_exchange_tabs and live = False]
  note at_upload = handleSuccess_appends_pair [OF h, where s = uploading_home
      and uri = "''file:rec.m4a''" and t = one_exchange_tabs and live = False]
  from at_init have c1:
    "map sender (messages (state_of (handleSuccess example_response init_home)))
       = [''user'', ''ai'']"
    by (elim conjE exE) (simp add: m1)
  from at_upload have c2:
    "map sender (messages (uploadAudio (OnNative (Uploaded 200 (Some example_response)))
                             ''file:rec.m4a'' uploading_home)) = [''user'', ''ai'']"
    by (elim conjE exE) (simp add: m2)
  from at_init have c3:
    "map sender (messages (state_of (handleSuccess_tabs example_response one_exchange_tabs)))
       = [''user'', ''ai'', ''user'', ''ai'']"
    by (elim conjE exE) (simp add: m3)
  show ?thesis using h c1 c2 c3 p q by simp
qed

subsection \<open>Stopping with no recording\<close>

text \<open>
  C7, as amended. \<open>stopRecording\<close> run while \<open>recordingRef\<close> holds no recording
  reports no error: it takes the bare \<^verbatim>\<open>return\<close>, so its promise is fulfilled with
  \<^verbatim>\<open>undefined\<close> and not rejected, as it is on every other path. It reaches the
  device and the network not at all and raises no alert, it leaves the log as it was,
  and it ends with \<open>isRecording\<close> and \<open>isLoading\<close> both false, on both screens.
\<close>

theorem stopRecording_no_handle:
  assumes "recordingRef s = None" and "recordingRef t = None"
  shows "stopRecording out env s
           = Fulfilled JUndefined (s\<lparr>isRecording := False, isLoading := False\<rparr>)
       \<and> \<not> is_rejected (stopRecording out env s)
       \<and> messages (settled_state (stopRecording out env s)) = messages s
       \<and> effects (settled_state (stopRecording out env s)) = effects s
       \<and> \<not> isRecording (settled_state (stopRecording out env s))
       \<and> \<not> isLoading (settled_state (stopRecording out env s))
       \<and> stopRecording_tabs out env t
           = Fulfilled JUndefined (t\<lparr>isRecording := False, isLoading := False\<rparr>)
       \<and> \<not> is_rejected (stopRecording_tabs out env t)
       \<and> messages (settled_state (stopRecording_tabs out env t)) = messages t
       \<and> effects (settled_state (stopRecording_tabs out env t)) = effects t
       \<and> \<not> isRecording (settled_state (stopRecording_tabs out env t))
       \<and> \<not> isLoading (settled_state (stopRecording_tabs out env t))
       \<and> (\<exists>s'. stopRecording out env s0 = Fulfilled JUndefined s')
       \<and> (\<exists>t'. stopRecording_tabs out env t0 = Fulfilled JUndefined t')"
proof -
  have every: "\<exists>s'. stopRecording out env s0 = Fulfilled JUndefined s'"
    by (simp add: stopRecording_def Let_def split: option.split stop_outcome.split)
  have every_tabs: "\<exists>t'. stopRecording_tabs out env t0 = Fulfilled JUndefined t'"
    by (simp add: stopRecording_tabs_def Let_def split: option.split stop_outcome.split)
  from assms every every_tabs show ?thesis
    by (simp add: stopRecording_def stopRecording_tabs_def)
qed

theorem stopRecording_no_handle_witness:
  "recordingRef init_home = None \<and> recordingRef init_tabs = None
   \<and> stopRecording (Stopped (Some ''file:rec.m4a''))
        (OnNative (Uploaded 200 (Some example_response))) init_home
       = Fulfilled JUndefined init_home
   \<and> stopRecording_tabs StopRejects (OnWeb PostRejects) init_tabs
       = Fulfilled JUndefined init_tabs"
proof -
  have h: "recordingRef init_home = None" by (simp add: init_home_def)
  have k: "recordingRef init_tabs = None" by (simp add: init_tabs_def)
  from stopRecording_no_handle [OF h k, where out = "Stopped (Some ''file:rec.m4a'')"
         and env = "OnNative (Uploaded 200 (Some example_response))"]
       stopRecording_no_handle [OF h k, where out = StopRejects and env = "OnWeb PostRejects"]
  show ?thesis using h k by (simp add: init_home_def init_tabs_def)
qed

text \<open>
  As first stated, with an error for a result, the property fails: stopping on the initial
  state, where nothing was ever recorded, fulfils with \<^verbatim>\<open>undefined\<close> and rejects
  nothing, exactly as a stop that went well and uploaded its recording does.
\<close>

theorem stopRecording_reports_no_error:
  "stopRecording (Stopped (Some ''file:rec.m4a''))
        (OnNative (Uploaded 200 (Some example_response))) init_home
       = Fulfilled JUndefined init_home
   \<and> \<not> is_rejected (stopRecording (Stopped (Some ''file:rec.m4a''))
        (OnNative (Uploaded 200 (Some example_response))) init_home)
   \<and> stopRecording_tabs (Stopped (Some ''file:rec.m4a''))
        (OnNative (Uploaded 200 (Some example_response))) init_tabs
       = Fulfilled JUndefined init_tabs
   \<and> stopRecording (Stopped (Some ''file:rec.m4a''))
        (OnNative (Uploaded 200 (Some example_response)))
        (init_home\<lparr>recordingRef := Some 7, isRecording := True\<rparr>)
       = Fulfilled JUndefined
           (uploadAudio (OnNative (Uploaded 200 (Some example_response))) ''file:rec.m4a''
              (emit (StopAndUnloadAsync 7)
                 (init_home\<lparr>isRecording := False, isLoading := True\<rparr>)))"
  by (simp add: stopRecording_def stopRecording_tabs_def init_home_def init_tabs_def emit_def)


subsection \<open>The loading guard\<close>

text \<open>
  C8. While \<open>isLoading\<close> is true, \<open>toggleRecording\<close> returns at once: whatever the
  device and the network would answer, the state is the one before the tap, so the log,
  \<open>isRecording\<close>, \<open>recordingRef\<close> and the trace of effects (no capture started, no
  upload sent) are unchanged, on both screens.
\<close>

theorem toggleRecording_loading_guard:
  assumes "isLoading s" and "isLoading t"
  shows "toggleRecording start stop env s = s
       \<and> toggleRecording_tabs start stop env t = t"
  using assms by (simp add: toggleRecording_def toggleRecording_tabs_def)

theorem toggleRecording_loading_guard_witness:
  "isLoading uploading_home \<and> isLoading uploading_tabs
   \<and> toggleRecording (Created 7) (Stopped (Some ''file:rec.m4a''))
        (OnNative (Uploaded 200 (Some example_response))) uploading_home = uploading_home
   \<and> toggleRecording_tabs (Created 7) (Stopped (Some ''file:rec.m4a''))
        (OnWeb (Posted 200 (Some example_response))) uploading_tabs = uploading_tabs"
proof -
  have h: "isLoading uploading_home" by (simp add: uploading_home_def)
  have k: "isLoading uploading_tabs" by (simp add: uploading_tabs_def)
  from toggleRecording_loading_guard [OF h k, of "Created 7" "Stopped (Some ''file:rec.m4a'')"
         "OnNative (Uploaded 200 (Some example_response))"]
       toggleRecording_loading_guard [OF h k, of "Created 7" "Stopped (Some ''file:rec.m4a'')"
         "OnWeb (Posted 200 (Some example_response))"]
  show ?thesis using h k by simp
qed


subsection \<open>No validation of a success response\<close>

text \<open>
  C9. \<open>handleSuccess\<close> tests the \<open>status\<close> property only. For every response that is
  not null and whose \<open>status\<close> is the string success, both screens return normally and
  append exactly two turns whose texts are whatever reading \<open>user_text\<close> and \<open>reply\<close>
  gives; when the response lacks \<open>user_text\<close>, \<open>reply\<close> and \<open>feedback\<close>, the two turns
  are appended all the same, with undefined texts.
\<close>

theorem handleSuccess_no_validation:
  assumes "is_success data"
  shows "(\<exists>s'. handleSuccess data s = Returns s')
       \<and> messages (state_of (handleSuccess data s)) = messages s @
           [\<lparr>sender = ''user'', msg_text = field data ''user_text'',
             feedback = (if liveFeedback s \<and> truthy (field data ''feedback'')
                         then field data ''feedback'' else JNull),
             showFeedback = JBool False\<rparr>,
            \<lparr>sender = ''ai'', msg_text = field data ''reply'',
             feedback = JUndefined, showFeedback = JUndefined\<rparr>]
       \<and> (\<exists>t'. handleSuccess_tabs data t = Returns t')
       \<and> messages (state_of (handleSuccess_tabs data t)) = messages t @
           [\<lparr>sender = ''user'', msg_text = field data ''user_text'',
             feedback = JUndefined, showFeedback = JUndefined\<rparr>,
            \<lparr>sender = ''ai'', msg_text = field data ''reply'',
             feedback = JUndefined, showFeedback = JUndefined\<rparr>]
       \<and> (field data ''user_text'' = JUndefined \<and> field data ''reply'' = JUndefined
            \<and> field data ''feedback'' = JUndefined \<longrightarrow>
          messages (state_of (handleSuccess data s)) = messages s @
            [\<lparr>sender = ''user'', msg_text = JUndefined, feedback = JNull,
              showFeedback = JBool False\<rparr>,
             \<lparr>sender = ''ai'', msg_text = JUndefined, feedback = JUndefined,
              showFeedback = JUndefined\<rparr>]
          \<and> messages (state_of (handleSuccess_tabs data t)) = messages t @
            [\<lparr>sender = ''user'', msg_text = JUndefined, feedback = JUndefined,
              showFeedback = JUndefined\<rparr>,
             \<lparr>sender = ''ai'', msg_text = JUndefined, feedback = JUndefined,
              showFeedback = JUndefined\<rparr>])"
  using assms
  by (simp add: handleSuccess_success handleSuccess_tabs_success newMessages_def
        newMessages_tabs_def)

theorem handleSuccess_no_validation_witness:
  "is_success bare_response
   \<and> field bare_response ''user_text'' = JUndefined
   \<and> field bare_response ''reply'' = JUndefined
   \<and> field bare_response ''feedback'' = JUndefined
   \<and> messages (state_of (handleSuccess bare_response init_home)) =
       [\<lparr>sender = ''user'', msg_text = JUndefined, feedback = JNull,
         showFeedback = JBool False\<rparr>,
        \<lparr>sender = ''ai'', msg_text = JUndefined, feedback = JUndefined,
         showFeedback = JUndefined\<rparr>]
   \<and> messages (state_of (handleSuccess_tabs bare_response init_tabs)) =
       [\<lparr>sender = ''user'', msg_text = JUndefined, feedback = JUndefined,
         showFeedback = JUndefined\<rparr>,
        \<lparr>sender = ''ai'', msg_text = JUndefined, feedback = JUndefined,
         showFeedback = JUndefined\<rparr>]"
proof -
  have h: "is_success bare_response" by simp
  have f: "field bare_response ''user_text'' = JUndefined"
          "field bare_response ''reply'' = JUndefined"
          "field bare_response ''feedback'' = JUndefined"
    by (simp_all add: bare_response_def)
  have m: "messages init_home = []" "messages init_tabs = []"
    by (simp_all add: init_home_def init_tabs_def)
  from handleSuccess_no_validation [OF h, of init_home init_tabs]
  show ?thesis using h f m by simp
qed

subsection \<open>The Live Corrections switch\<close>

lemma liveFeedback_switch_all:
  "liveFeedback (switch_all vs s) = (if vs = [] then liveFeedback s else last vs)"
  by (induction vs arbitrary: s) (simp_all add: setLiveFeedback_def)






subsection \<open>Selecting a context\<close>

text \<open>
  C1, as amended. On the home screen, pressing the pill of \<open>y\<close> after pressing the pill
  of \<open>x\<close> and handling any run of responses leaves the log empty, also when \<open>x = y\<close>
  (and that run, when all its responses are successes, had grown the log to twice its
  length). On the tabs screen the pill sets the context only: the log after the press is
  the log before it.
\<close>

theorem pill_onPress_resets_log:
  "messages (pill_onPress y (handle_all ds (pill_onPress x s))) = []
   \<and> (list_all is_success ds \<longrightarrow>
        length (messages (handle_all ds (pill_onPress x s))) = 2 * length ds)
   \<and> messages (pill_onPress_tabs y t) = messages t"
proof -
  have "messages (pill_onPress x s) = []"
    by (simp add: pill_onPress_def)
  then have "list_all is_success ds \<Longrightarrow>
      length (messages (handle_all ds (pill_onPress x s))) = 2 * length ds"
    by (simp add: length_handle_all)
  then show ?thesis
    by (simp add: pill_onPress_def pill_onPress_tabs_def)
qed

theorem pill_onPress_resets_log_witness:
  "list_all is_success [example_response, bare_response]
   \<and> length (messages (handle_all [example_response, bare_response]
                         (pill_onPress ''waiter'' init_home))) = 4
   \<and> messages (pill_onPress ''waiter''
        (handle_all [example_response, bare_response] (pill_onPress ''waiter'' init_home))) = []
   \<and> messages (pill_onPress_tabs ''doctor'' one_exchange_tabs) = messages one_exchange_tabs"
proof -
  have h: "list_all is_success [example_response, bare_response]" by simp
  from pill_onPress_resets_log [where x = "''waiter''" and y = "''waiter''"
         and ds = "[example_response, bare_response]" and s = init_home
         and t = one_exchange_tabs]
       pill_onPress_resets_log [where y = "''doctor''" and t = one_exchange_tabs]
  show ?thesis using h by simp
qed

text \<open>
  The claim as stated fails on the tabs screen: after the waiter pill, one exchange and
  the doctor pill, the log still holds the two turns.
\<close>

theorem pill_onPress_tabs_keeps_log:
  "length (messages (pill_onPress_tabs ''doctor''
      (handle_all_tabs [example_response] (pill_onPress_tabs ''waiter'' init_tabs)))) = 2
   \<and> messages (pill_onPress_tabs ''doctor''
      (handle_all_tabs [example_response] (pill_onPress_tabs ''waiter'' init_tabs))) \<noteq> []"
proof -
  have "messages (pill_onPress_tabs ''doctor''
      (handle_all_tabs [example_response] (pill_onPress_tabs ''waiter'' init_tabs)))
    = newMessages_tabs example_response"
    by (simp add: pill_onPress_tabs_def messages_handleSuccess_tabs init_tabs_def)
  then show ?thesis
    by (simp add: newMessages_tabs_def)
qed


subsection \<open>Showing and hiding a correction\<close>

lemma toggleFeedback_returns: "\<exists>scr. toggleFeedback i s = Returns scr"
  by (simp add: toggleFeedback_def)

text \<open>
  C2, as amended. For every log and every index the call of \<open>toggleFeedback\<close> returns
  to its caller without throwing. For an index inside the log: on a turn whose sender is
  not the user the screen is rendered with the state unchanged; on a user turn it is
  rendered with that one turn's \<open>showFeedback\<close> negated and every other turn and every
  other property as before. For an index outside the log the function given to
  \<open>setMessages\<close> reads a property of \<^verbatim>\<open>undefined\<close>: when React renders the update it
  throws a TypeError and the screen is unmounted.
\<close>

theorem toggleFeedback_in_range:
  "(\<exists>scr. toggleFeedback i s = Returns scr)
   \<and> (0 \<le> i \<and> i < int (length (messages s)) \<and> sender (messages s ! nat i) \<noteq> ''user''
      \<longrightarrow> toggleFeedback i s = Returns (Mounted s))
   \<and> (0 \<le> i \<and> i < int (length (messages s)) \<and> sender (messages s ! nat i) = ''user''
      \<longrightarrow> toggleFeedback i s =
            Returns (Mounted (s\<lparr>messages := (messages s)[nat i := (messages s ! nat i)
               \<lparr>showFeedback := JBool (\<not> truthy (showFeedback (messages s ! nat i)))\<rparr>]\<rparr>)))
   \<and> (i < 0 \<or> int (length (messages s)) \<le> i
      \<longrightarrow> toggleFeedback i s = Returns (Unmounted TypeError))"
  by (auto simp add: toggleFeedback_def render_setMessages_def toggleFeedback_updater_def
        Let_def)

theorem toggleFeedback_in_range_witness:
  "length (messages one_exchange_home) = 2
   \<and> sender (messages one_exchange_home ! nat 0) = ''user''
   \<and> sender (messages one_exchange_home ! nat 1) \<noteq> ''user''
   \<and> map showFeedback (messages one_exchange_home) = [JBool False, JUndefined]
   \<and> (\<exists>s'. toggleFeedback 0 one_exchange_home = Returns (Mounted s')
          \<and> map showFeedback (messages s') = [JBool True, JUndefined]
          \<and> map sender (messages s') = map sender (messages one_exchange_home)
          \<and> map msg_text (messages s') = map msg_text (messages one_exchange_home)
          \<and> map feedback (messages s') = map feedback (messages one_exchange_home))
   \<and> toggleFeedback 1 one_exchange_home = Returns (Mounted one_exchange_home)
   \<and> toggleFeedback 2 one_exchange_home = Returns (Unmounted TypeError)"
proof -
  have m: "messages one_exchange_home = newMessages True example_response"
    by (rule messages_one_exchange_home)
  from toggleFeedback_in_range [of 0 one_exchange_home]
       toggleFeedback_in_range [of 1 one_exchange_home]
       toggleFeedback_in_range [of 2 one_exchange_home]
  show ?thesis by (simp add: m newMessages_def)
qed

text \<open>
  As first stated, with a no-op outside the log, the property fails: on the empty log
  index 0 does not leave the screen as it was, it unmounts it, and so do an index below
  zero and an index past the end of a log of two turns.
\<close>

theorem toggleFeedback_out_of_range_unmounts:
  "toggleFeedback 0 init_home = Returns (Unmounted TypeError)
   \<and> toggleFeedback 0 init_home \<noteq> Returns (Mounted init_home)
   \<and> toggleFeedback_updater 0 [] = Inl TypeError
   \<and> toggleFeedback (- 1) one_exchange_home = Returns (Unmounted TypeError)
   \<and> toggleFeedback 2 one_exchange_home = Returns (Unmounted TypeError)"
  by (simp add: toggleFeedback_def render_setMessages_def toggleFeedback_updater_def
        init_home_def messages_one_exchange_home)

subsection \<open>Feedback and playback of a handled response\<close>





subsection \<open>Failed uploads\<close>

text \<open>
  Whatever happens, \<open>uploadAudio\<close> ends with \<open>isLoading\<close> false. When the body of its
  \<^verbatim>\<open>try\<close> throws, the log is the one before the upload and the last effect is the
  alert of the \<^verbatim>\<open>catch\<close>. On a device, a status other than 200 and a body that is not
  JSON both throw, as does a rejected request on either platform.
\<close>

lemma handleSuccess_closure_throws:
  "handleSuccess_closure live data s = Throws e s' \<Longrightarrow> s' = s"
  by (cases "nullish data")
     (simp_all add: handleSuccess_closure_def handleSuccess_writes_def get_prop_def
        split: if_splits)

lemma not_isLoading_uploadAudio: "\<not> isLoading (uploadAudio env uri s)"
  by (simp add: uploadAudio_def uploadAudio_during_def Let_def)

lemma messages_uploadAudio_try_throws:
  assumes "uploadAudio_try_during (\<lambda>s'. s') env uri s = Throws e s'"
  shows "messages s' = messages s"
proof (cases env)
  case (OnWeb w)
  with assms show ?thesis
    by (cases w)
       (auto simp add: uploadAudio_try_during_def Let_def split: option.splits
          dest: handleSuccess_closure_throws)
next
  case (OnNative n)
  with assms show ?thesis
    by (cases n)
       (auto simp add: uploadAudio_try_during_def Let_def split: option.splits if_splits
          dest: handleSuccess_closure_throws)
qed

lemma uploadAudio_on_throw:
  assumes "uploadAudio_try_during (\<lambda>s'. s') env uri s = Throws e s'"
  shows "messages (uploadAudio env uri s) = messages s
       \<and> last (effects (uploadAudio env uri s))
           = Alert ''Connection Error'' ''Could not reach the AI server.''
       \<and> \<not> isLoading (uploadAudio env uri s)"
  using assms messages_uploadAudio_try_throws [OF assms]
  by (simp add: uploadAudio_def uploadAudio_during_def uploadAudio_catch_def Let_def)

lemma uploadAudio_try_native_non200:
  "status \<noteq> 200 \<Longrightarrow>
     \<exists>s'. uploadAudio_try_during (\<lambda>s'. s') (OnNative (Uploaded status body)) uri s
            = Throws ServerError s'"
  by (simp add: uploadAudio_try_during_def Let_def)

lemma uploadAudio_try_not_json:
  "\<exists>s'. uploadAudio_try_during (\<lambda>s'. s') (OnNative (Uploaded 200 None)) uri s
          = Throws SyntaxError s'"
  "\<exists>s'. uploadAudio_try_during (\<lambda>s'. s') (OnWeb (Posted status None)) uri s
          = Throws SyntaxError s'"
  by (simp_all add: uploadAudio_try_during_def Let_def)

lemma uploadAudio_try_rejected:
  "\<exists>s'. uploadAudio_try_during (\<lambda>s'. s') (OnNative UploadAsyncRejects) uri s
          = Throws NetworkError s'"
  "\<exists>s'. uploadAudio_try_during (\<lambda>s'. s') (OnWeb PostRejects) uri s
          = Throws NetworkError s'"
  by (simp_all add: uploadAudio_try_during_def Let_def)

text \<open>
  C3. The web branch never reads the status code. A response with status 500 whose body
  is the sample success response is handled as a success on both screens: the two turns
  are appended, playback starts and no alert is raised. The device branch, given the
  same response, throws before it parses the body: nothing is appended and the alert is
  raised.
\<close>

theorem uploadAudio_web_ignores_status:
  "messages (uploadAudio (OnWeb (Posted 500 (Some example_response))) ''blob:rec''
      uploading_home) = newMessages True example_response
   \<and> effects (uploadAudio (OnWeb (Posted 500 (Some example_response))) ''blob:rec''
      uploading_home)
       = [FetchUri ''blob:rec'', PostChatAudioFetch ''waiter'' ''true'', PlayAudio (JStr ''QUJD'')]
   \<and> length (messages (uploadAudio_tabs (OnWeb (Posted 500 (Some example_response)))
      ''blob:rec'' uploading_tabs)) = 2
   \<and> effects (uploadAudio_tabs (OnWeb (Posted 500 (Some example_response))) ''blob:rec''
      uploading_tabs)
       = [FetchUri ''blob:rec'', PostChatAudioFetch ''waiter'' ''true'', PlayAudio (JStr ''QUJD'')]
   \<and> messages (uploadAudio (OnNative (Uploaded 500 (Some example_response)))
      ''file:rec.m4a'' uploading_home) = []
   \<and> effects (uploadAudio (OnNative (Uploaded 500 (Some example_response)))
      ''file:rec.m4a'' uploading_home)
       = [PostChatAudioUploadAsync ''file:rec.m4a'' ''waiter'' ''true'',
          ConsoleError ''Upload Failed'' ServerError,
          Alert ''Connection Error'' ''Could not reach the AI server.'']"
proof -
  have a: "field example_response ''audio'' = JStr ''QUJD''"
    by (simp add: example_response_def)
  have tap: "liveFeedback uploading_home" "context_name uploading_home = ''waiter''"
            "liveFeedback uploading_tabs" "context_name uploading_tabs = ''waiter''"
    by (simp_all add: uploading_home_def uploading_tabs_def init_home_def init_tabs_def)
  have home: "uploadAudio_try_during (\<lambda>s'. s') (OnWeb (Posted 500 (Some example_response)))
      ''blob:rec'' uploading_home = Returns (playAudio (JStr ''QUJD'')
        (setMessages (\<lambda>prev. prev @ newMessages True example_response)
          (emit (PostChatAudioFetch ''waiter'' ''true'')
             (emit (FetchUri ''blob:rec'') uploading_home))))"
    by (simp add: uploadAudio_try_during_def Let_def handleSuccess_closure_success a
          bool_toString_def tap)
  have tabs: "uploadAudio_try_tabs (OnWeb (Posted 500 (Some example_response))) ''blob:rec''
      uploading_tabs = Returns (playAudio (JStr ''QUJD'')
        (setMessages (\<lambda>prev. prev @ newMessages_tabs example_response)
          (emit (PostChatAudioFetch ''waiter'' ''true'')
             (emit (FetchUri ''blob:rec'') uploading_tabs))))"
    by (simp add: uploadAudio_try_tabs_def Let_def handleSuccess_tabs_success a
          bool_toString_def tap)
  have native: "uploadAudio_try_during (\<lambda>s'. s')
      (OnNative (Uploaded 500 (Some example_response))) ''file:rec.m4a'' uploading_home
      = Throws ServerError
          (emit (PostChatAudioUploadAsync ''file:rec.m4a'' ''waiter'' ''true'') uploading_home)"
    by (simp add: uploadAudio_try_during_def Let_def bool_toString_def tap)
  have e: "messages uploading_home = []" "effects uploading_home = []"
          "messages uploading_tabs = []" "effects uploading_tabs = []"
    by (simp_all add: uploading_home_def uploading_tabs_def init_home_def init_tabs_def)
  show ?thesis
    by (simp add: uploadAudio_def uploadAudio_during_def uploadAudio_tabs_def home tabs
          native e Let_def uploadAudio_catch_def)
qed


subsection \<open>Resetting the history\<close>

text \<open>
  When the server answers, with 204 or with any other status, \<open>resetHistory\<close> empties
  the log, shows the roles again, raises no alert and leaves \<open>isRecording\<close> and
  \<open>isLoading\<close> alone.
\<close>

lemma resetHistory_responded:
  "messages (resetHistory (ResetResponded status) s) = []
   \<and> displayRoles (resetHistory (ResetResponded status) s)
   \<and> isRecording (resetHistory (ResetResponded status) s) = isRecording s
   \<and> isLoading (resetHistory (ResetResponded status) s) = isLoading s
   \<and> effects (resetHistory (ResetResponded status) s) =
       effects s @ PutResetContext #
         (if status = 204 then [] else [ConsoleLog ''Could not reset history.''])"
  by (simp add: resetHistory_def Let_def emit_def)

text \<open>
  C4. When the request itself fails, \<open>resetHistory\<close> jumps to its \<^verbatim>\<open>catch\<close>, which
  only logs: after one exchange the log still holds its two turns and the roles stay
  hidden, whereas a response with status 500 from the same state empties the log.
\<close>

theorem resetHistory_rejected_keeps_log:
  "messages (resetHistory ResetRejects one_exchange_home) = messages one_exchange_home
   \<and> length (messages (resetHistory ResetRejects one_exchange_home)) = 2
   \<and> \<not> displayRoles (resetHistory ResetRejects one_exchange_home)
   \<and> effects (resetHistory ResetRejects one_exchange_home)
       = effects one_exchange_home @ [PutResetContext, ConsoleLogError NetworkError]
   \<and> messages (resetHistory (ResetResponded 500) one_exchange_home) = []"
  by (simp add: resetHistory_def Let_def emit_def messages_one_exchange_home)

end
